theory Spec2Isabelle
  imports Main
begin

section \<open>The login/signup form of \<open>main.py\<close>\<close>

subsection \<open>Data model\<close>

text \<open>
  \<open>ThemeColors\<close>: the six colours of the dataclass, by field name. The snack bars
  are styled with them and nothing else reads them.
\<close>

datatype theme_color =
  C_primary | C_background | C_card_background | C_text | C_text_secondary | C_error

text \<open>
  \<open>CustomTextField\<close>: the constructor takes \<open>label\<close>, \<open>password\<close> and \<open>visible\<close>;
  the text the user typed is the field's \<open>value\<close>, a string that is empty until
  something is typed. (An unset value, Python's \<open>None\<close>, would pass and fail
  the same checks as the empty string: it is falsy, and differs from every
  non-empty string.)
\<close>

record text_field =
  label :: string
  password :: bool
  visible :: bool
  field_value :: string

definition CustomTextField :: "string \<Rightarrow> bool \<Rightarrow> bool \<Rightarrow> text_field" where
  "CustomTextField l p v = \<lparr>label = l, password = p, visible = v, field_value = []\<rparr>"

text \<open>
  \<open>ft.SnackBar(content=ft.Text(message, color=...), bgcolor=...)\<close>: the message and
  its two colours.
\<close>

record snack_bar =
  content :: string
  color :: theme_color
  bgcolor :: theme_color

text \<open>
  \<open>AuthForm\<close>: the mode flag, the four fields, the text of the submit button, the
  value of the toggle text, and the page's snack bars in the order
  \<open>page.show_snack_bar\<close> was called.
\<close>

record auth_form =
  is_login :: bool
  name_field :: text_field
  email_field :: text_field
  pass_field :: text_field
  confirm_pass_field :: text_field
  submit_button_text :: string
  toggle_text_value :: string
  page_snack_bars :: "snack_bar list"

text \<open>\<open>AuthForm.__init__\<close> with \<open>initialize_fields\<close>, on a page that has shown nothing.\<close>

definition initialize_fields :: "bool \<Rightarrow> auth_form" where
  "initialize_fields login =
     \<lparr>is_login = login,
      name_field = CustomTextField ''Username'' False True,
      email_field = CustomTextField ''Email'' False False,
      pass_field = CustomTextField ''Password'' True True,
      confirm_pass_field = CustomTextField ''Confirm Password'' True False,
      submit_button_text = ''Login'',
      toggle_text_value = ''New here? Sign Up!'',
      page_snack_bars = []\<rparr>"

definition AuthForm_init :: auth_form where
  "AuthForm_init = initialize_fields True"

subsection \<open>Snack bars\<close>

definition error_snack_bar :: "string \<Rightarrow> snack_bar" where
  "error_snack_bar message =
     \<lparr>content = message, color = C_error, bgcolor = C_card_background\<rparr>"

definition success_snack_bar :: "string \<Rightarrow> snack_bar" where
  "success_snack_bar message =
     \<lparr>content = message, color = C_text, bgcolor = C_primary\<rparr>"

definition show_error :: "auth_form \<Rightarrow> string \<Rightarrow> auth_form" where
  "show_error self message =
     self\<lparr>page_snack_bars := page_snack_bars self @ [error_snack_bar message]\<rparr>"

definition show_success :: "auth_form \<Rightarrow> string \<Rightarrow> auth_form" where
  "show_success self message =
     self\<lparr>page_snack_bars := page_snack_bars self @ [success_snack_bar message]\<rparr>"

subsection \<open>Submitting\<close>

text \<open>
  \<open>validate_and_submit\<close>, each early \<open>return\<close> a branch. Python's \<open>not s\<close> on a
  string is \<open>s = []\<close>.
\<close>

definition validate_and_submit :: "auth_form \<Rightarrow> auth_form" where
  "validate_and_submit self =
     (if field_value (name_field self) = [] then show_error self ''Please enter username''
      else if field_value (pass_field self) = [] then show_error self ''Please enter password''
      else if \<not> is_login self \<and> field_value (email_field self) = []
        then show_error self ''Please enter email''
      else if \<not> is_login self
           \<and> field_value (pass_field self) \<noteq> field_value (confirm_pass_field self)
        then show_error self ''Passwords don't match!''
      else show_success self ((if is_login self then ''Login'' else ''Signup'') @ '' successful!''))"

text \<open>
  The checks of \<open>validate_and_submit\<close> alone (the lines before \<open>action = ...\<close>): the
  message of the first check that fails, or \<open>Ok\<close> when the code reaches the
  success branch.
\<close>

datatype validation_result = Ok | Error string

definition validate :: "auth_form \<Rightarrow> validation_result" where
  "validate self =
     (if field_value (name_field self) = [] then Error ''Please enter username''
      else if field_value (pass_field self) = [] then Error ''Please enter password''
      else if \<not> is_login self then
        (if field_value (email_field self) = [] then Error ''Please enter email''
         else if field_value (pass_field self) \<noteq> field_value (confirm_pass_field self)
           then Error ''Passwords don't match!''
         else Ok)
      else Ok)"

text \<open>
  The snack bars that one call of \<open>validate_and_submit\<close> adds to the page.
\<close>

definition emitted :: "auth_form \<Rightarrow> snack_bar list" where
  "emitted self =
     drop (length (page_snack_bars self)) (page_snack_bars (validate_and_submit self))"

subsection \<open>Toggling\<close>

text \<open>
  \<open>toggle_mode\<close>, assignment by assignment; the closing \<open>self.update()\<close> redraws
  the control and changes no attribute.
\<close>

definition toggle_mode :: "auth_form \<Rightarrow> auth_form" where
  "toggle_mode self =
     (let s1 = self\<lparr>is_login := \<not> is_login self\<rparr>;
          s2 = s1\<lparr>confirm_pass_field := (confirm_pass_field s1)\<lparr>visible := \<not> is_login s1\<rparr>\<rparr>;
          s3 = s2\<lparr>email_field := (email_field s2)\<lparr>visible := \<not> is_login s2\<rparr>\<rparr>;
          s4 = s3\<lparr>submit_button_text := (if is_login s3 then ''Login'' else ''Sign Up'')\<rparr>;
          s5 = s4\<lparr>toggle_text_value :=
                 (if is_login s4 then ''New here? Sign Up!''
                  else ''Already have an account? Login!'')\<rparr>
      in s5)"

subsection \<open>The form under user events\<close>

text \<open>
  What the user can do to the form: type into one of the four fields (the
  framework stores the text as the field's \<open>value\<close>), click the submit button
  (\<open>on_click=self.validate_and_submit\<close>) or click the toggle text
  (\<open>on_click=self.toggle_mode\<close>).
\<close>

datatype event =
  Change_name string
| Change_email string
| Change_pass string
| Change_confirm_pass string
| Click_submit
| Click_toggle

fun handle :: "auth_form \<Rightarrow> event \<Rightarrow> auth_form" where
  "handle self (Change_name v) = self\<lparr>name_field := (name_field self)\<lparr>field_value := v\<rparr>\<rparr>"
| "handle self (Change_email v) = self\<lparr>email_field := (email_field self)\<lparr>field_value := v\<rparr>\<rparr>"
| "handle self (Change_pass v) = self\<lparr>pass_field := (pass_field self)\<lparr>field_value := v\<rparr>\<rparr>"
| "handle self (Change_confirm_pass v) =
     self\<lparr>confirm_pass_field := (confirm_pass_field self)\<lparr>field_value := v\<rparr>\<rparr>"
| "handle self Click_submit = validate_and_submit self"
| "handle self Click_toggle = toggle_mode self"

text \<open>The state of a freshly built form after a sequence of events.\<close>

definition run :: "event list \<Rightarrow> auth_form" where
  "run evs = foldl handle AuthForm_init evs"

text \<open>The two hidden fields are shown exactly in signup mode.\<close>

definition visibility_inv :: "auth_form \<Rightarrow> bool" where
  "visibility_inv self \<longleftrightarrow>
     visible (email_field self) = (\<not> is_login self)
     \<and> visible (confirm_pass_field self) = (\<not> is_login self)"

text \<open>The two texts are the ones \<open>toggle_mode\<close> writes for the current mode.\<close>

definition labels_inv :: "auth_form \<Rightarrow> bool" where
  "labels_inv self \<longleftrightarrow>
     submit_button_text self = (if is_login self then ''Login'' else ''Sign Up'')
     \<and> toggle_text_value self =
         (if is_login self then ''New here? Sign Up!''
          else ''Already have an account? Login!'')"

section \<open>Properties\<close>

subsection \<open>Helper facts\<close>

lemma page_snack_bars_submit:
  "page_snack_bars (validate_and_submit self) =
     page_snack_bars self @
       [case validate self of
          Error msg \<Rightarrow> error_snack_bar msg
        | Ok \<Rightarrow> success_snack_bar
                 ((if is_login self then ''Login'' else ''Signup'') @ '' successful!'')]"
  by (simp add: validate_and_submit_def validate_def show_error_def show_success_def)

lemma emitted_submit:
  "emitted self =
     [case validate self of
        Error msg \<Rightarrow> error_snack_bar msg
      | Ok \<Rightarrow> success_snack_bar
               ((if is_login self then ''Login'' else ''Signup'') @ '' successful!'')]"
  by (simp add: emitted_def page_snack_bars_submit)

lemma submit_frame:
  "validate_and_submit self =
     self\<lparr>page_snack_bars := page_snack_bars (validate_and_submit self)\<rparr>"
  by (simp add: validate_and_submit_def show_error_def show_success_def)

lemma labels_inv_handle: "labels_inv self \<Longrightarrow> labels_inv (handle self ev)"
proof (cases ev)
  case Click_submit
  assume "labels_inv self"
  moreover have "labels_inv (validate_and_submit self) = labels_inv self"
    by (subst submit_frame) (simp add: labels_inv_def)
  ultimately show ?thesis using Click_submit by simp
next
  case Click_toggle
  then show ?thesis by (simp add: labels_inv_def toggle_mode_def Let_def)
qed (simp_all add: labels_inv_def)

lemma labels_inv_foldl: "labels_inv self \<Longrightarrow> labels_inv (foldl handle self evs)"
  by (induction evs arbitrary: self) (simp_all add: labels_inv_handle)

lemma labels_inv_run: "labels_inv (run evs)"
  unfolding run_def
  by (rule labels_inv_foldl)
     (simp add: labels_inv_def AuthForm_init_def initialize_fields_def)

subsection \<open>Validation\<close>

text \<open>
  C1. The checks run in a fixed order and the first one that fails decides:
  empty username, then empty password, then (in signup mode only) empty email,
  then (in signup mode only) password different from its confirmation; when
  none fails the result is \<open>Ok\<close>. One submit shows no error snack bar when the
  result is \<open>Ok\<close> and exactly one, carrying the message of the result, when it
  is an error: never two messages at once.
\<close>

theorem validate_rule_order:
  "validate self =
     (if field_value (name_field self) = [] then Error ''Please enter username''
      else if field_value (pass_field self) = [] then Error ''Please enter password''
      else if \<not> is_login self \<and> field_value (email_field self) = []
        then Error ''Please enter email''
      else if \<not> is_login self
           \<and> field_value (pass_field self) \<noteq> field_value (confirm_pass_field self)
        then Error ''Passwords don't match!''
      else Ok)
   \<and> filter (\<lambda>b. color b = C_error) (emitted self) =
       (case validate self of Ok \<Rightarrow> [] | Error msg \<Rightarrow> [error_snack_bar msg])
   \<and> length (filter (\<lambda>b. color b = C_error) (emitted self)) \<le> 1"
proof -
  have order: "validate self =
     (if field_value (name_field self) = [] then Error ''Please enter username''
      else if field_value (pass_field self) = [] then Error ''Please enter password''
      else if \<not> is_login self \<and> field_value (email_field self) = []
        then Error ''Please enter email''
      else if \<not> is_login self
           \<and> field_value (pass_field self) \<noteq> field_value (confirm_pass_field self)
        then Error ''Passwords don't match!''
      else Ok)"
    by (simp add: validate_def)
  have one: "filter (\<lambda>b. color b = C_error) (emitted self) =
       (case validate self of Ok \<Rightarrow> [] | Error msg \<Rightarrow> [error_snack_bar msg])"
    by (cases "validate self")
       (simp_all add: emitted_submit error_snack_bar_def success_snack_bar_def)
  have "length (filter (\<lambda>b. color b = C_error) (emitted self)) \<le> 1"
    unfolding one by (cases "validate self") simp_all
  with order one show ?thesis by blast
qed

text \<open>
  C2. One submit shows exactly one snack bar. When a check fails it is the
  error snack bar (the message in the error colour on the card background)
  whose text is the message of the failed check; when all checks pass it is
  the success snack bar (the text colour on the primary colour) whose text is
  \<open>Login successful!\<close> in login mode and \<open>Signup successful!\<close> in signup
  mode. No other snack bar is shown. With username \<open>bob\<close> and password \<open>x\<close>
  in login mode the text is \<open>Login successful!\<close>; in signup mode with
  username \<open>bob\<close>, no email and password and confirmation \<open>x\<close> it is the
  error \<open>Please enter email\<close>.
\<close>

theorem submit_one_notification:
  "page_snack_bars (validate_and_submit self) = page_snack_bars self @ emitted self
   \<and> emitted self =
       [case validate self of
          Error msg \<Rightarrow> \<lparr>content = msg, color = C_error, bgcolor = C_card_background\<rparr>
        | Ok \<Rightarrow> \<lparr>content = (if is_login self then ''Login'' else ''Signup'') @ '' successful!'',
                 color = C_text, bgcolor = C_primary\<rparr>]
   \<and> map content (emitted self) =
       [if field_value (name_field self) = [] then ''Please enter username''
        else if field_value (pass_field self) = [] then ''Please enter password''
        else if \<not> is_login self \<and> field_value (email_field self) = []
          then ''Please enter email''
        else if \<not> is_login self
             \<and> field_value (pass_field self) \<noteq> field_value (confirm_pass_field self)
          then ''Passwords don't match!''
        else if is_login self then ''Login successful!''
        else ''Signup successful!'']
   \<and> length (emitted self) = 1
   \<and> emitted (run [Change_name ''bob'', Change_pass ''x'']) =
       [\<lparr>content = ''Login successful!'', color = C_text, bgcolor = C_primary\<rparr>]
   \<and> emitted (run [Click_toggle, Change_name ''bob'', Change_pass ''x'',
                   Change_confirm_pass ''x'']) =
       [\<lparr>content = ''Please enter email'', color = C_error, bgcolor = C_card_background\<rparr>]"
proof -
  have appended:
    "page_snack_bars (validate_and_submit self) = page_snack_bars self @ emitted self"
    by (simp add: emitted_submit page_snack_bars_submit)
  have shown: "emitted self =
       [case validate self of
          Error msg \<Rightarrow> \<lparr>content = msg, color = C_error, bgcolor = C_card_background\<rparr>
        | Ok \<Rightarrow> \<lparr>content = (if is_login self then ''Login'' else ''Signup'') @ '' successful!'',
                 color = C_text, bgcolor = C_primary\<rparr>]"
    by (cases "validate self")
       (simp_all add: emitted_submit error_snack_bar_def success_snack_bar_def)
  have texts: "map content (emitted self) =
       [if field_value (name_field self) = [] then ''Please enter username''
        else if field_value (pass_field self) = [] then ''Please enter password''
        else if \<not> is_login self \<and> field_value (email_field self) = []
          then ''Please enter email''
        else if \<not> is_login self
             \<and> field_value (pass_field self) \<noteq> field_value (confirm_pass_field self)
          then ''Passwords don't match!''
        else if is_login self then ''Login successful!''
        else ''Signup successful!'']"
    unfolding shown by (simp add: validate_def)
  have one: "length (emitted self) = 1"
    unfolding shown by simp
  have login: "emitted (run [Change_name ''bob'', Change_pass ''x'']) =
       [\<lparr>content = ''Login successful!'', color = C_text, bgcolor = C_primary\<rparr>]"
    by (simp add: emitted_submit success_snack_bar_def validate_def run_def
          AuthForm_init_def initialize_fields_def CustomTextField_def)
  have signup: "emitted (run [Click_toggle, Change_name ''bob'', Change_pass ''x'',
                   Change_confirm_pass ''x'']) =
       [\<lparr>content = ''Please enter email'', color = C_error, bgcolor = C_card_background\<rparr>]"
    by (simp add: emitted_submit error_snack_bar_def validate_def run_def toggle_mode_def
          Let_def AuthForm_init_def initialize_fields_def CustomTextField_def)
  from appended shown texts one login signup show ?thesis by blast
qed

text \<open>
  C3. In login mode a non-empty username and password validate; in signup
  mode a non-empty username, email and password with the confirmation equal
  to the password validate.
\<close>

theorem validate_ok:
  "(is_login self \<and> field_value (name_field self) \<noteq> []
      \<and> field_value (pass_field self) \<noteq> [] \<longrightarrow> validate self = Ok)
   \<and> (\<not> is_login self \<and> field_value (name_field self) \<noteq> []
      \<and> field_value (email_field self) \<noteq> [] \<and> field_value (pass_field self) \<noteq> []
      \<and> field_value (pass_field self) = field_value (confirm_pass_field self)
      \<longrightarrow> validate self = Ok)"
  by (simp add: validate_def)

theorem validate_ok_witness:
  "is_login (run [Change_name ''a'', Change_pass ''b''])
   \<and> field_value (name_field (run [Change_name ''a'', Change_pass ''b''])) = ''a''
   \<and> field_value (pass_field (run [Change_name ''a'', Change_pass ''b''])) = ''b''
   \<and> validate (run [Change_name ''a'', Change_pass ''b'']) = Ok
   \<and> \<not> is_login (run [Click_toggle, Change_name ''a'', Change_email ''e@x.com'',
                       Change_pass ''p'', Change_confirm_pass ''p''])
   \<and> validate (run [Click_toggle, Change_name ''a'', Change_email ''e@x.com'',
                    Change_pass ''p'', Change_confirm_pass ''p'']) = Ok"
  using validate_ok [of "run [Change_name ''a'', Change_pass ''b'']"]
    validate_ok [of "run [Click_toggle, Change_name ''a'', Change_email ''e@x.com'',
                         Change_pass ''p'', Change_confirm_pass ''p'']"]
  by (simp add: run_def AuthForm_init_def initialize_fields_def CustomTextField_def
        toggle_mode_def Let_def)

subsection \<open>Toggling and framing\<close>

text \<open>
  C4. From any state, \<open>toggle_mode\<close> flips the mode, shows the email and the
  confirmation field exactly when the new mode is signup, writes \<open>Login\<close> or
  \<open>Sign Up\<close> on the submit button and \<open>New here? Sign Up!\<close> or
  \<open>Already have an account? Login!\<close> as the toggle text according to the new
  mode, and keeps the four stored values.
\<close>

theorem toggle_mode_effect:
  "is_login (toggle_mode self) = (\<not> is_login self)
   \<and> visible (email_field (toggle_mode self)) = (\<not> is_login (toggle_mode self))
   \<and> visible (confirm_pass_field (toggle_mode self)) = (\<not> is_login (toggle_mode self))
   \<and> submit_button_text (toggle_mode self) =
       (if is_login (toggle_mode self) then ''Login'' else ''Sign Up'')
   \<and> toggle_text_value (toggle_mode self) =
       (if is_login (toggle_mode self) then ''New here? Sign Up!''
        else ''Already have an account? Login!'')
   \<and> field_value (name_field (toggle_mode self)) = field_value (name_field self)
   \<and> field_value (email_field (toggle_mode self)) = field_value (email_field self)
   \<and> field_value (pass_field (toggle_mode self)) = field_value (pass_field self)
   \<and> field_value (confirm_pass_field (toggle_mode self)) =
       field_value (confirm_pass_field self)"
  by (simp add: toggle_mode_def Let_def)

text \<open>
  C5. A submit, failing or successful, changes nothing of the form but the
  page's snack bars: the mode, the four fields (value, visibility, label) and
  the two texts stay as they were.
\<close>

theorem submit_changes_nothing:
  "is_login (validate_and_submit self) = is_login self
   \<and> name_field (validate_and_submit self) = name_field self
   \<and> email_field (validate_and_submit self) = email_field self
   \<and> pass_field (validate_and_submit self) = pass_field self
   \<and> confirm_pass_field (validate_and_submit self) = confirm_pass_field self
   \<and> submit_button_text (validate_and_submit self) = submit_button_text self
   \<and> toggle_text_value (validate_and_submit self) = toggle_text_value self
   \<and> validate_and_submit self =
       self\<lparr>page_snack_bars := page_snack_bars self @ emitted self\<rparr>"
proof -
  have frame: "validate_and_submit self =
      self\<lparr>page_snack_bars := page_snack_bars self @ emitted self\<rparr>"
    using submit_frame [of self]
    by (simp add: emitted_submit page_snack_bars_submit)
  have fields: "is_login (validate_and_submit self) = is_login self
     \<and> name_field (validate_and_submit self) = name_field self
     \<and> email_field (validate_and_submit self) = email_field self
     \<and> pass_field (validate_and_submit self) = pass_field self
     \<and> confirm_pass_field (validate_and_submit self) = confirm_pass_field self
     \<and> submit_button_text (validate_and_submit self) = submit_button_text self
     \<and> toggle_text_value (validate_and_submit self) = toggle_text_value self"
    by (simp add: validate_and_submit_def show_error_def show_success_def)
  from fields frame show ?thesis by blast
qed

text \<open>
  C6. Toggling twice gives the mode back, from any state; and in every state
  the form can be in (a fresh form after any sequence of events) it also gives
  back the text of the submit button and the toggle text.
\<close>

theorem toggle_mode_twice:
  "is_login (toggle_mode (toggle_mode self)) = is_login self
   \<and> submit_button_text (toggle_mode (toggle_mode (run evs))) = submit_button_text (run evs)
   \<and> toggle_text_value (toggle_mode (toggle_mode (run evs))) = toggle_text_value (run evs)"
proof -
  have "labels_inv (run evs)" by (rule labels_inv_run)
  then show ?thesis
    by (simp add: labels_inv_def toggle_mode_def Let_def)
qed

text \<open>
  C7. A fresh form is in login mode with four empty values and the email and
  confirmation fields hidden, so the two fields are visible exactly in signup
  mode; every event (typing into a field, submit, toggle) keeps that; and one
  toggle of the fresh form gives signup mode, \<open>Sign Up\<close> on the button,
  \<open>Already have an account? Login!\<close> as the toggle text and both fields
  visible.
\<close>

theorem visibility_invariant:
  "is_login AuthForm_init
   \<and> field_value (name_field AuthForm_init) = []
   \<and> field_value (email_field AuthForm_init) = []
   \<and> field_value (pass_field AuthForm_init) = []
   \<and> field_value (confirm_pass_field AuthForm_init) = []
   \<and> \<not> visible (email_field AuthForm_init)
   \<and> \<not> visible (confirm_pass_field AuthForm_init)
   \<and> visibility_inv AuthForm_init
   \<and> (visibility_inv self \<longrightarrow> visibility_inv (handle self ev))
   \<and> visibility_inv (run evs)
   \<and> \<not> is_login (toggle_mode AuthForm_init)
   \<and> submit_button_text (toggle_mode AuthForm_init) = ''Sign Up''
   \<and> toggle_text_value (toggle_mode AuthForm_init) = ''Already have an account? Login!''
   \<and> visible (email_field (toggle_mode AuthForm_init))
   \<and> visible (confirm_pass_field (toggle_mode AuthForm_init))"
proof -
  have init: "visibility_inv AuthForm_init"
    by (simp add: visibility_inv_def AuthForm_init_def initialize_fields_def
          CustomTextField_def)
  have step: "visibility_inv s \<Longrightarrow> visibility_inv (handle s e)" for s e
  proof (cases e)
    case Click_submit
    assume "visibility_inv s"
    moreover have "visibility_inv (validate_and_submit s) = visibility_inv s"
      by (subst submit_frame) (simp add: visibility_inv_def)
    ultimately show ?thesis using Click_submit by simp
  next
    case Click_toggle
    then show ?thesis by (simp add: visibility_inv_def toggle_mode_def Let_def)
  qed (simp_all add: visibility_inv_def)
  have fold: "visibility_inv s \<Longrightarrow> visibility_inv (foldl handle s es)" for s es
    by (induction es arbitrary: s) (simp_all add: step)
  have reach: "visibility_inv (run evs)"
    unfolding run_def by (rule fold [OF init])
  have fresh: "is_login AuthForm_init
     \<and> field_value (name_field AuthForm_init) = []
     \<and> field_value (email_field AuthForm_init) = []
     \<and> field_value (pass_field AuthForm_init) = []
     \<and> field_value (confirm_pass_field AuthForm_init) = []
     \<and> \<not> visible (email_field AuthForm_init)
     \<and> \<not> visible (confirm_pass_field AuthForm_init)"
    by (simp add: AuthForm_init_def initialize_fields_def CustomTextField_def)
  have toggled: "\<not> is_login (toggle_mode AuthForm_init)
     \<and> submit_button_text (toggle_mode AuthForm_init) = ''Sign Up''
     \<and> toggle_text_value (toggle_mode AuthForm_init) = ''Already have an account? Login!''
     \<and> visible (email_field (toggle_mode AuthForm_init))
     \<and> visible (confirm_pass_field (toggle_mode AuthForm_init))"
    by (simp add: toggle_mode_def Let_def AuthForm_init_def initialize_fields_def
          CustomTextField_def)
  from init step [of self ev] reach fresh toggled show ?thesis by blast
qed

theorem visibility_invariant_witness:
  "visibility_inv (run [Click_toggle, Change_email ''e@x.com''])
   \<and> visibility_inv (handle (run [Click_toggle, Change_email ''e@x.com'']) Click_submit)
   \<and> visible (email_field (handle (run [Click_toggle, Change_email ''e@x.com'']) Click_submit))"
proof -
  have pre: "visibility_inv (run [Click_toggle, Change_email ''e@x.com''])"
    by (simp add: visibility_inv_def run_def toggle_mode_def Let_def AuthForm_init_def
          initialize_fields_def CustomTextField_def)
  have "visibility_inv (handle (run [Click_toggle, Change_email ''e@x.com'']) Click_submit)"
    using visibility_invariant [of "run [Click_toggle, Change_email ''e@x.com'']" Click_submit]
      pre by blast
  moreover have
    "visible (email_field (handle (run [Click_toggle, Change_email ''e@x.com'']) Click_submit))"
    by (simp add: run_def toggle_mode_def Let_def AuthForm_init_def
          initialize_fields_def CustomTextField_def validate_and_submit_def
          show_error_def show_success_def)
  ultimately show ?thesis using pre by blast
qed

subsection \<open>What validation depends on\<close>




text \<open>
  C9. In login mode the email and the confirmation value do not influence
  validation: two login-mode states with the same username and password get
  the same result, whatever is left in the two hidden fields.
\<close>

theorem login_ignores_hidden_fields:
  "is_login a \<Longrightarrow> is_login b
   \<Longrightarrow> field_value (name_field a) = field_value (name_field b)
   \<Longrightarrow> field_value (pass_field a) = field_value (pass_field b)
   \<Longrightarrow> validate a = validate b"
  by (simp add: validate_def)

theorem login_ignores_hidden_fields_witness:
  "is_login (run [Click_toggle, Change_email ''e@x.com'', Change_confirm_pass ''other'',
                 Click_toggle, Change_name ''bob'', Change_pass ''x''])
   \<and> field_value (confirm_pass_field
        (run [Click_toggle, Change_email ''e@x.com'', Change_confirm_pass ''other'',
              Click_toggle, Change_name ''bob'', Change_pass ''x''])) = ''other''
   \<and> field_value (confirm_pass_field (run [Change_name ''bob'', Change_pass ''x''])) = []
   \<and> validate (run [Click_toggle, Change_email ''e@x.com'', Change_confirm_pass ''other'',
                    Click_toggle, Change_name ''bob'', Change_pass ''x'']) =
       validate (run [Change_name ''bob'', Change_pass ''x''])
   \<and> validate (run [Change_name ''bob'', Change_pass ''x'']) = Ok"
proof -
  let ?a = "run [Click_toggle, Change_email ''e@x.com'', Change_confirm_pass ''other'',
                 Click_toggle, Change_name ''bob'', Change_pass ''x'']"
  let ?b = "run [Change_name ''bob'', Change_pass ''x'']"
  have a: "is_login ?a \<and> field_value (name_field ?a) = ''bob''
      \<and> field_value (pass_field ?a) = ''x'' \<and> field_value (confirm_pass_field ?a) = ''other''"
    by (simp add: run_def toggle_mode_def Let_def AuthForm_init_def initialize_fields_def
          CustomTextField_def)
  have b: "is_login ?b \<and> field_value (name_field ?b) = ''bob''
      \<and> field_value (pass_field ?b) = ''x'' \<and> field_value (confirm_pass_field ?b) = []"
    by (simp add: run_def AuthForm_init_def initialize_fields_def CustomTextField_def)
  have ok: "validate ?b = Ok"
    using b by (simp add: validate_def)
  have "validate ?a = validate ?b"
    using login_ignores_hidden_fields [of ?a ?b] a b by simp
  with a b ok show ?thesis by blast
qed

text \<open>
  C10. The confirmation has no emptiness check of its own: in signup mode,
  with username, password and email filled in and the confirmation empty, the
  result is the mismatch message.
\<close>

theorem empty_confirmation_is_mismatch:
  "\<not> is_login self \<Longrightarrow> field_value (name_field self) \<noteq> []
   \<Longrightarrow> field_value (pass_field self) \<noteq> []
   \<Longrightarrow> field_value (email_field self) \<noteq> []
   \<Longrightarrow> field_value (confirm_pass_field self) = []
   \<Longrightarrow> validate self = Error ''Passwords don't match!''"
  by (simp add: validate_def)

theorem empty_confirmation_is_mismatch_witness:
  "\<not> is_login (run [Click_toggle, Change_name ''bob'', Change_email ''e@x.com'',
                    Change_pass ''x''])
   \<and> field_value (confirm_pass_field
        (run [Click_toggle, Change_name ''bob'', Change_email ''e@x.com'',
              Change_pass ''x''])) = []
   \<and> validate (run [Click_toggle, Change_name ''bob'', Change_email ''e@x.com'',
                    Change_pass ''x'']) = Error ''Passwords don't match!''"
proof -
  let ?s = "run [Click_toggle, Change_name ''bob'', Change_email ''e@x.com'',
                 Change_pass ''x'']"
  have s: "\<not> is_login ?s \<and> field_value (name_field ?s) = ''bob''
      \<and> field_value (pass_field ?s) = ''x'' \<and> field_value (email_field ?s) = ''e@x.com''
      \<and> field_value (confirm_pass_field ?s) = []"
    by (simp add: run_def toggle_mode_def Let_def AuthForm_init_def initialize_fields_def
          CustomTextField_def)
  have "validate ?s = Error ''Passwords don't match!''"
    using empty_confirmation_is_mismatch [of ?s] s by simp
  with s show ?thesis by blast
qed

end
